theory Spec2Isabelle
  imports Main
begin

section \<open>The Wayland output of qtile: data model\<close>

text \<open>
  A shallow embedding of \<^verbatim>\<open>libqtile/backend/wayland/output.py\<close>. Python integers are
  \<^typ>\<open>int\<close>. Objects compared with \<^verbatim>\<open>is\<close> carry an identity (\<open>ident\<close>), and a reference
  to such an object is its identity. Calls into the backend (wlroots) and into the rest
  of qtile are recorded, in order, as a list of events.
\<close>

datatype error = AssertionError | AttributeError | RuntimeError

text \<open>
  Modelled from the spec: the enumeration \<^verbatim>\<open>LayerShellV1Layer\<close> is imported from wlroots
  and its declaration is not part of this file. The spec lists the four layers as
  BACKGROUND, BOTTOM, TOP, OVERLAY and the reversed iteration as OVERLAY, TOP, BOTTOM,
  BACKGROUND ("top to bottom", as the comments of \<^verbatim>\<open>organise_layers\<close> say). The
  enumerations of the keyboard interactivity and of the anchored edges are imported from
  wlroots likewise.
\<close>

datatype LayerShellV1Layer = BACKGROUND | BOTTOM | TOP | OVERLAY

definition LayerShellV1Layer_members :: "LayerShellV1Layer list" where
  "LayerShellV1Layer_members = [BACKGROUND, BOTTOM, TOP, OVERLAY]"

datatype LayerSurfaceV1KeyboardInteractivity = NONE | EXCLUSIVE | ON_DEMAND

datatype LayerSurfaceV1Anchor = ANCHOR_TOP | ANCHOR_BOTTOM | ANCHOR_LEFT | ANCHOR_RIGHT

text \<open>\<^verbatim>\<open>wlroots.util.box.Box\<close>: a rectangle with integer origin and size.\<close>

record Box =
  box_x :: int
  box_y :: int
  box_width :: int
  box_height :: int

text \<open>The committed state of a layer surface, \<^verbatim>\<open>win.surface.current\<close>.\<close>

record LayerSurfaceV1State =
  exclusive_zone :: int
  keyboard_interactive :: LayerSurfaceV1KeyboardInteractivity
  desired_width :: int
  desired_height :: int
  anchor :: "LayerSurfaceV1Anchor set"

text \<open>A \<^verbatim>\<open>LayerStatic\<close> window: its identity and the committed state of its surface.\<close>

record LayerStatic =
  ident :: nat
  current :: LayerSurfaceV1State

text \<open>What \<^verbatim>\<open>contains\<close> reads of a window or a drag icon.\<close>

record Rect =
  rect_x :: int
  rect_y :: int
  rect_width :: int
  rect_height :: int

record Screen =
  screen_index :: nat
  screen_x :: int
  screen_y :: int
  screen_width :: int
  screen_height :: int

record Qtile =
  screens :: "Screen list"
  current_screen :: Screen

text \<open>
  The compositor core, shared by all outputs: \<^verbatim>\<open>core.qtile\<close> (which is \<^verbatim>\<open>None\<close> until
  qtile is attached) and \<^verbatim>\<open>core.exclusive_layer\<close>, a reference to a window or \<^verbatim>\<open>None\<close>.
\<close>

record Core =
  qtile :: "Qtile option"
  exclusive_layer :: "nat option"

record wlrOutput =
  effective_width :: int
  effective_height :: int

text \<open>
  An output: \<^verbatim>\<open>self.x\<close>, \<^verbatim>\<open>self.y\<close>, \<^verbatim>\<open>self.wlr_output\<close>, \<^verbatim>\<open>self._reserved_space\<close> and
  \<^verbatim>\<open>self.layers\<close>, the list of surfaces of every layer, which the layer indexes.
\<close>

record Output =
  out_x :: int
  out_y :: int
  wlr_output :: wlrOutput
  reserved_space :: "int \<times> int \<times> int \<times> int"
  layers :: "LayerShellV1Layer \<Rightarrow> LayerStatic list"

text \<open>
  The calls that leave this file: \<^verbatim>\<open>win.scene_layer.configure(full_area, usable_area)\<close>
  with the two boxes as they are when the call is made, \<^verbatim>\<open>win.place(x, y, w, h, 0, None)\<close>,
  \<^verbatim>\<open>qtile.reserve_space(delta, screen)\<close>, \<^verbatim>\<open>core.focus_window(win)\<close> and
  \<^verbatim>\<open>scene_output.send_frame_done(time)\<close>.
\<close>

datatype event =
    Configure nat Box Box
  | Place nat int int int int
  | ReserveSpace "int \<times> int \<times> int \<times> int" Screen
  | FocusWindow nat
  | SendFrameDone nat

text \<open>
  \<^verbatim>\<open>scene_layer.configure\<close> belongs to the backend. It positions the scene node of the
  window and may change \<^verbatim>\<open>usable_area\<close> in place. It is a parameter of the model: a
  function from the window and the two boxes to the usable area after the call and the
  position \<^verbatim>\<open>(win.node.x, win.node.y)\<close> of the node after the call.
\<close>

type_synonym configure_fn = "LayerStatic \<Rightarrow> Box \<Rightarrow> Box \<Rightarrow> Box \<times> int \<times> int"

section \<open>The operations\<close>

definition effective_resolution :: "wlrOutput \<Rightarrow> int \<times> int" where
  "effective_resolution w = (effective_width w, effective_height w)"

definition get_geometry :: "Output \<Rightarrow> int \<times> int \<times> int \<times> int" where
  "get_geometry out =
     (let (width, height) = effective_resolution (wlr_output out)
      in (out_x out, out_y out, width, height))"

text \<open>The loop of the \<^verbatim>\<open>screen\<close> property; \<open>None\<close> when it ends without returning.\<close>

fun screen_loop :: "int \<Rightarrow> int \<Rightarrow> int \<Rightarrow> int \<Rightarrow> Screen list \<Rightarrow> Screen option" where
  "screen_loop x y w h [] = None"
| "screen_loop x y w h (s # ss) =
     (if screen_x s = x \<and> screen_y s = y then
        (if screen_width s = w \<and> screen_height s = h then Some s
         else screen_loop x y w h ss)
      else screen_loop x y w h ss)"

definition screen :: "Core \<Rightarrow> Output \<Rightarrow> error + Screen" where
  "screen core out =
     (case qtile core of
        None \<Rightarrow> Inl AssertionError
      | Some q \<Rightarrow>
          if length (screens q) > 1 then
            (case get_geometry out of
               (x, y, w, h) \<Rightarrow>
                 (case screen_loop x y w h (screens q) of
                    Some s \<Rightarrow> Inr s
                  | None \<Rightarrow> Inr (current_screen q)))
          else Inr (current_screen q))"

text \<open>
  The frame handler. The outcome of \<^verbatim>\<open>self._scene_output.commit()\<close> is a parameter:
  \<open>Inr ()\<close> when it returns, \<open>Inl e\<close> when it raises \<open>e\<close>. Only \<^verbatim>\<open>RuntimeError\<close> is caught.
  The result lists the calls made after the commit.
\<close>

definition on_frame :: "error + unit \<Rightarrow> nat \<Rightarrow> error + event list" where
  "on_frame commit monotonic_time =
     (case commit of
        Inl e \<Rightarrow> if e = RuntimeError then Inr [] else Inl e
      | Inr u \<Rightarrow> Inr [SendFrameDone monotonic_time])"

definition contains :: "Output \<Rightarrow> Rect \<Rightarrow> bool" where
  "contains out rect =
     (if rect_x rect + rect_width rect < out_x out then False
      else if rect_y rect + rect_height rect < out_y out then False
      else
        (let (ow, oh) = effective_resolution (wlr_output out) in
         if out_x out + ow < rect_x rect then False
         else if out_y out + oh < rect_y rect then False
         else True))"

text \<open>
  The loop of \<^verbatim>\<open>_organise_layer\<close> over the surfaces of one layer: the usable area after
  the loop and the calls made.
\<close>

fun organise_layer_loop ::
  "configure_fn \<Rightarrow> Box \<Rightarrow> bool \<Rightarrow> LayerStatic list \<Rightarrow> Box \<Rightarrow> Box \<times> event list" where
  "organise_layer_loop cfg full_area exclusive [] usable_area = (usable_area, [])"
| "organise_layer_loop cfg full_area exclusive (win # wins) usable_area =
     (let state = current win in
      if exclusive \<noteq> (0 < exclusive_zone state) then
        organise_layer_loop cfg full_area exclusive wins usable_area
      else
        (case cfg win full_area usable_area of
           (usable_area', node_x, node_y) \<Rightarrow>
             (case organise_layer_loop cfg full_area exclusive wins usable_area' of
                (usable_area'', evs) \<Rightarrow>
                  (usable_area'',
                   Configure (ident win) full_area usable_area
                     # Place (ident win) node_x node_y (desired_width state) (desired_height state)
                     # evs))))"

definition organise_layer ::
  "configure_fn \<Rightarrow> Output \<Rightarrow> LayerShellV1Layer \<Rightarrow> Box \<Rightarrow> Box \<Rightarrow> bool \<Rightarrow> Box \<times> event list" where
  "organise_layer cfg out layer full_area usable_area exclusive =
     organise_layer_loop cfg full_area exclusive (layers out layer) usable_area"

text \<open>\<^verbatim>\<open>for layer in ...: self._organise_layer(layer, full_area, usable_area, exclusive=...)\<close>\<close>

fun organise_each ::
  "configure_fn \<Rightarrow> Output \<Rightarrow> Box \<Rightarrow> bool \<Rightarrow> LayerShellV1Layer list \<Rightarrow> Box \<Rightarrow> Box \<times> event list" where
  "organise_each cfg out full_area exclusive [] usable_area = (usable_area, [])"
| "organise_each cfg out full_area exclusive (layer # ls) usable_area =
     (case organise_layer cfg out layer full_area usable_area exclusive of
        (usable_area', evs) \<Rightarrow>
          (case organise_each cfg out full_area exclusive ls usable_area' of
             (usable_area'', evs') \<Rightarrow> (usable_area'', evs @ evs')))"

text \<open>
  The inner loop of the scan for the topmost keyboard-interactive layer, given the
  current \<^verbatim>\<open>core.exclusive_layer\<close>: whether the function returned, the new
  \<^verbatim>\<open>core.exclusive_layer\<close> and the calls made.
\<close>

fun scan_layer :: "LayerStatic list \<Rightarrow> nat option \<Rightarrow> bool \<times> nat option \<times> event list" where
  "scan_layer [] holder = (False, holder, [])"
| "scan_layer (win # wins) holder =
     (if keyboard_interactive (current win) = EXCLUSIVE then
        (True, Some (ident win), [FocusWindow (ident win)])
      else if holder = Some (ident win) then scan_layer wins None
      else scan_layer wins holder)"

fun scan_layers ::
  "Output \<Rightarrow> LayerShellV1Layer list \<Rightarrow> nat option \<Rightarrow> nat option \<times> event list" where
  "scan_layers out [] holder = (holder, [])"
| "scan_layers out (layer # ls) holder =
     (case scan_layer (layers out layer) holder of
        (returned, holder', evs) \<Rightarrow>
          if returned then (holder', evs)
          else (case scan_layers out ls holder' of
                  (holder'', evs') \<Rightarrow> (holder'', evs @ evs')))"

definition new_reserved_space :: "int \<Rightarrow> int \<Rightarrow> Box \<Rightarrow> int \<times> int \<times> int \<times> int" where
  "new_reserved_space ow oh usable_area =
     (box_x usable_area,
      ow - box_x usable_area - box_width usable_area,
      box_y usable_area,
      oh - box_y usable_area - box_height usable_area)"

fun delta_of :: "int \<times> int \<times> int \<times> int \<Rightarrow> int \<times> int \<times> int \<times> int \<Rightarrow> int \<times> int \<times> int \<times> int" where
  "delta_of (n1, n2, n3, n4) (o1, o2, o3, o4) = (n1 - o1, n2 - o2, n3 - o3, n4 - o4)"

text \<open>
  \<^verbatim>\<open>organise_layers\<close>: the core and the output after the call and the calls made, in
  order. With \<^verbatim>\<open>core.qtile\<close> being \<^verbatim>\<open>None\<close> the attribute access
  \<^verbatim>\<open>self.core.qtile.reserve_space\<close> raises.
\<close>

definition organise_layers ::
  "configure_fn \<Rightarrow> Core \<Rightarrow> Output \<Rightarrow> error + Core \<times> Output \<times> event list" where
  "organise_layers cfg core out =
     (let (ow, oh) = effective_resolution (wlr_output out);
          full_area = \<lparr>box_x = 0, box_y = 0, box_width = ow, box_height = oh\<rparr>;
          usable_area = \<lparr>box_x = 0, box_y = 0, box_width = ow, box_height = oh\<rparr>
      in
      case organise_each cfg out full_area True (rev LayerShellV1Layer_members) usable_area of
        (usable_area1, evs1) \<Rightarrow>
          (let new = new_reserved_space ow oh usable_area1;
               delta = delta_of new (reserved_space out)
           in
           case qtile core of
             None \<Rightarrow> Inl AttributeError
           | Some q \<Rightarrow>
               (case screen core out of
                  Inl e \<Rightarrow> Inl e
                | Inr scr \<Rightarrow>
                    (let out1 = out\<lparr>reserved_space := new\<rparr> in
                     case organise_each cfg out1 full_area False
                            (rev LayerShellV1Layer_members) usable_area1 of
                       (usable_area2, evs2) \<Rightarrow>
                         (case scan_layers out1 [OVERLAY, TOP] (exclusive_layer core) of
                            (holder, evs3) \<Rightarrow>
                              Inr (core\<lparr>exclusive_layer := holder\<rparr>, out1,
                                   evs1 @ [ReserveSpace delta scr] @ evs2 @ evs3))))))"

section \<open>Notions used to state the properties\<close>

text \<open>
  The bounding box of an output, from its position and effective resolution: it covers
  the columns from \<open>box_x\<close> up to, but not including, \<open>box_x + box_width\<close>, and the rows
  likewise. A rectangle lies entirely left of a box when it ends where the box begins, or
  before; entirely right of it when it begins where the box ends, or after; and likewise
  above and below. A rectangle that only touches the box lies entirely outside of it.
\<close>

definition bounding_box :: "Output \<Rightarrow> Box" where
  "bounding_box out =
     (case get_geometry out of
        (x, y, w, h) \<Rightarrow> \<lparr>box_x = x, box_y = y, box_width = w, box_height = h\<rparr>)"

definition entirely_left_of :: "Rect \<Rightarrow> Box \<Rightarrow> bool" where
  "entirely_left_of r b \<longleftrightarrow> rect_x r + rect_width r \<le> box_x b"

definition entirely_above :: "Rect \<Rightarrow> Box \<Rightarrow> bool" where
  "entirely_above r b \<longleftrightarrow> rect_y r + rect_height r \<le> box_y b"

definition entirely_right_of :: "Rect \<Rightarrow> Box \<Rightarrow> bool" where
  "entirely_right_of r b \<longleftrightarrow> box_x b + box_width b \<le> rect_x r"

definition entirely_below :: "Rect \<Rightarrow> Box \<Rightarrow> bool" where
  "entirely_below r b \<longleftrightarrow> box_y b + box_height b \<le> rect_y r"

text \<open>
  The extent of the intersection of two intervals \<open>[a, a + m]\<close> and \<open>[b, b + n]\<close>; it
  is at most \<open>0\<close> when the intervals share no interior point.
\<close>

definition overlap_extent :: "int \<Rightarrow> int \<Rightarrow> int \<Rightarrow> int \<Rightarrow> int" where
  "overlap_extent a m b n = min (a + m) (b + n) - max a b"

text \<open>A screen whose position and size are exactly the geometry of the output.\<close>

definition matches_geometry :: "Output \<Rightarrow> Screen \<Rightarrow> bool" where
  "matches_geometry out s \<longleftrightarrow>
     screen_x s = out_x out \<and> screen_y s = out_y out
     \<and> screen_width s = effective_width (wlr_output out)
     \<and> screen_height s = effective_height (wlr_output out)"

text \<open>
  The surfaces of an output in the order in which the two placement passes visit them,
  and in the order in which the scan for keyboard focus visits them.
\<close>

definition all_surfaces :: "Output \<Rightarrow> LayerStatic list" where
  "all_surfaces out = layers out OVERLAY @ layers out TOP @ layers out BOTTOM @ layers out BACKGROUND"

definition scanned_surfaces :: "Output \<Rightarrow> LayerStatic list" where
  "scanned_surfaces out = layers out OVERLAY @ layers out TOP"

text \<open>A surface reserves space when its committed exclusive zone is positive.\<close>

definition reserves :: "LayerStatic \<Rightarrow> bool" where
  "reserves win \<longleftrightarrow> 0 < exclusive_zone (current win)"

definition is_exclusive :: "LayerStatic \<Rightarrow> bool" where
  "is_exclusive win \<longleftrightarrow> keyboard_interactive (current win) = EXCLUSIVE"

text \<open>
  Readings of a list of calls: the windows configured, the windows placed, the usable
  areas passed to \<^verbatim>\<open>configure\<close>, the windows for which focus was requested, and the
  arguments of \<^verbatim>\<open>reserve_space\<close>.
\<close>

fun configured :: "event list \<Rightarrow> nat list" where
  "configured [] = []"
| "configured (Configure i f u # evs) = i # configured evs"
| "configured (e # evs) = configured evs"

fun placed :: "event list \<Rightarrow> nat list" where
  "placed [] = []"
| "placed (Place i x y w h # evs) = i # placed evs"
| "placed (e # evs) = placed evs"

fun usable_areas_passed :: "event list \<Rightarrow> Box list" where
  "usable_areas_passed [] = []"
| "usable_areas_passed (Configure i f u # evs) = u # usable_areas_passed evs"
| "usable_areas_passed (e # evs) = usable_areas_passed evs"

fun focus_requests :: "event list \<Rightarrow> nat list" where
  "focus_requests [] = []"
| "focus_requests (FocusWindow i # evs) = i # focus_requests evs"
| "focus_requests (e # evs) = focus_requests evs"

fun reserve_space_calls :: "event list \<Rightarrow> ((int \<times> int \<times> int \<times> int) \<times> Screen) list" where
  "reserve_space_calls [] = []"
| "reserve_space_calls (ReserveSpace d s # evs) = (d, s) # reserve_space_calls evs"
| "reserve_space_calls (e # evs) = reserve_space_calls evs"

text \<open>\<^verbatim>\<open>Box(0, 0, ow, oh)\<close> for the effective resolution of the output.\<close>

definition full_area :: "Output \<Rightarrow> Box" where
  "full_area out =
     \<lparr>box_x = 0, box_y = 0,
      box_width = effective_width (wlr_output out),
      box_height = effective_height (wlr_output out)\<rparr>"

text \<open>The screen that the \<^verbatim>\<open>screen\<close> property yields when qtile is attached.\<close>

definition mapped_screen :: "Qtile \<Rightarrow> Output \<Rightarrow> Screen" where
  "mapped_screen q out =
     (if 1 < length (screens q) then
        (case List.find (matches_geometry out) (screens q) of
           Some s \<Rightarrow> s
         | None \<Rightarrow> current_screen q)
      else current_screen q)"

text \<open>
  The holder of exclusive focus is \<^verbatim>\<open>None\<close>, or it refers to a surface that is in the
  OVERLAY or TOP layer of the output and whose committed keyboard interactivity is
  EXCLUSIVE.
\<close>

definition holder_invariant :: "Core \<Rightarrow> Output \<Rightarrow> bool" where
  "holder_invariant core out \<longleftrightarrow>
     (case exclusive_layer core of
        None \<Rightarrow> True
      | Some h \<Rightarrow>
          (\<exists>w \<in> set (scanned_surfaces out).
             ident w = h \<and> keyboard_interactive (current w) = EXCLUSIVE))"



text \<open>
  Modelled from the spec: \<^verbatim>\<open>scene_layer.configure\<close> is a call into wlroots and its code is
  not part of this file. The spec describes it as the placement capability that
  "shrinks usableArea along the surface's anchored edge by exclusiveZone" and that
  "mutates usableArea in place when the surface is exclusive". The anchored edge of a
  surface is the edge to which it is anchored alone or together with both perpendicular
  edges, as the layer-shell protocol has it: a bar anchored to the top, left and right
  edges takes its zone from the top. A surface anchored to a corner, to two opposite
  edges, to all edges or to none has no anchored edge; the spec names no edge to shrink
  along for it and the model leaves the usable area as it is. The spec leaves the
  rendered position open; this model puts the node at the origin of the usable area that
  the call received.
\<close>

definition anchored_edge :: "LayerSurfaceV1Anchor set \<Rightarrow> LayerSurfaceV1Anchor option" where
  "anchored_edge a =
     (let t = ANCHOR_TOP \<in> a; b = ANCHOR_BOTTOM \<in> a;
          l = ANCHOR_LEFT \<in> a; r = ANCHOR_RIGHT \<in> a
      in if t \<and> \<not> b \<and> l = r then Some ANCHOR_TOP
         else if b \<and> \<not> t \<and> l = r then Some ANCHOR_BOTTOM
         else if l \<and> \<not> r \<and> t = b then Some ANCHOR_LEFT
         else if r \<and> \<not> l \<and> t = b then Some ANCHOR_RIGHT
         else None)"

definition configure_spec :: configure_fn where
  "configure_spec win full usable_area =
     (let z = exclusive_zone (current win) in
      ((if 0 < z then
          (case anchored_edge (anchor (current win)) of
             Some ANCHOR_TOP \<Rightarrow>
               usable_area\<lparr>box_y := box_y usable_area + z,
                            box_height := box_height usable_area - z\<rparr>
           | Some ANCHOR_BOTTOM \<Rightarrow>
               usable_area\<lparr>box_height := box_height usable_area - z\<rparr>
           | Some ANCHOR_LEFT \<Rightarrow>
               usable_area\<lparr>box_x := box_x usable_area + z,
                            box_width := box_width usable_area - z\<rparr>
           | Some ANCHOR_RIGHT \<Rightarrow>
               usable_area\<lparr>box_width := box_width usable_area - z\<rparr>
           | None \<Rightarrow> usable_area)
        else usable_area),
       box_x usable_area, box_y usable_area))"

section \<open>Example states\<close>

definition output_1080p :: Output where
  "output_1080p =
     \<lparr>out_x = 0, out_y = 0,
      wlr_output = \<lparr>effective_width = 1920, effective_height = 1080\<rparr>,
      reserved_space = (0, 0, 0, 0),
      layers = (\<lambda>l. [])\<rparr>"

definition screen_a :: Screen where
  "screen_a = \<lparr>screen_index = 0, screen_x = 1920, screen_y = 0,
                screen_width = 1280, screen_height = 1024\<rparr>"

definition screen_b :: Screen where
  "screen_b = \<lparr>screen_index = 1, screen_x = 0, screen_y = 0,
                screen_width = 1920, screen_height = 1080\<rparr>"

definition screen_c :: Screen where
  "screen_c = \<lparr>screen_index = 2, screen_x = 0, screen_y = 0,
                screen_width = 1920, screen_height = 1080\<rparr>"

definition core_three_screens :: Core where
  "core_three_screens =
     \<lparr>qtile = Some \<lparr>screens = [screen_a, screen_b, screen_c], current_screen = screen_a\<rparr>,
      exclusive_layer = None\<rparr>"

definition panel :: LayerStatic where
  "panel = \<lparr>ident = 1,
             current = \<lparr>exclusive_zone = 32, keyboard_interactive = NONE,
                        desired_width = 1920, desired_height = 32,
                        anchor = {ANCHOR_TOP}\<rparr>\<rparr>"

definition wallpaper :: LayerStatic where
  "wallpaper = \<lparr>ident = 2,
                 current = \<lparr>exclusive_zone = 0, keyboard_interactive = NONE,
                            desired_width = 1920, desired_height = 1048,
                            anchor = {ANCHOR_TOP, ANCHOR_BOTTOM, ANCHOR_LEFT, ANCHOR_RIGHT}\<rparr>\<rparr>"

definition launcher :: LayerStatic where
  "launcher = \<lparr>ident = 3,
                current = \<lparr>exclusive_zone = 0, keyboard_interactive = EXCLUSIVE,
                           desired_width = 600, desired_height = 400,
                           anchor = {}\<rparr>\<rparr>"

definition dialog :: LayerStatic where
  "dialog = \<lparr>ident = 4,
              current = \<lparr>exclusive_zone = 0, keyboard_interactive = EXCLUSIVE,
                         desired_width = 300, desired_height = 200,
                         anchor = {}\<rparr>\<rparr>"

definition tall_panel :: LayerStatic where
  "tall_panel = \<lparr>ident = 5,
                  current = \<lparr>exclusive_zone = 2000, keyboard_interactive = NONE,
                             desired_width = 1920, desired_height = 2000,
                             anchor = {ANCHOR_TOP}\<rparr>\<rparr>"

definition released_launcher :: LayerStatic where
  "released_launcher =
     launcher\<lparr>current := (current launcher)\<lparr>keyboard_interactive := NONE\<rparr>\<rparr>"

definition core_one_screen :: Core where
  "core_one_screen =
     \<lparr>qtile = Some \<lparr>screens = [screen_b], current_screen = screen_b\<rparr>,
      exclusive_layer = None\<rparr>"

definition core_launcher_holds :: Core where
  "core_launcher_holds = core_one_screen\<lparr>exclusive_layer := Some 3\<rparr>"

definition full_1080p :: Box where
  "full_1080p = \<lparr>box_x = 0, box_y = 0, box_width = 1920, box_height = 1080\<rparr>"

definition usable_below_panel :: Box where
  "usable_below_panel = \<lparr>box_x = 0, box_y = 32, box_width = 1920, box_height = 1048\<rparr>"

definition full_right :: Box where
  "full_right = \<lparr>box_x = 0, box_y = 0, box_width = 1280, box_height = 1024\<rparr>"

definition output_scenario_b :: Output where
  "output_scenario_b =
     output_1080p\<lparr>layers := (\<lambda>l. [])(TOP := [panel], BACKGROUND := [wallpaper])\<rparr>"

definition output_scenario_c :: Output where
  "output_scenario_c =
     output_1080p\<lparr>layers := (\<lambda>l. [])(OVERLAY := [launcher], TOP := [dialog])\<rparr>"

definition output_launcher_overlay :: Output where
  "output_launcher_overlay = output_1080p\<lparr>layers := (\<lambda>l. [])(OVERLAY := [launcher])\<rparr>"

definition output_launcher_bottom :: Output where
  "output_launcher_bottom = output_1080p\<lparr>layers := (\<lambda>l. [])(BOTTOM := [launcher])\<rparr>"


definition output_right :: Output where
  "output_right =
     \<lparr>out_x = 1920, out_y = 0,
      wlr_output = \<lparr>effective_width = 1280, effective_height = 1024\<rparr>,
      reserved_space = (0, 0, 0, 0),
      layers = (\<lambda>l. [])(TOP := [dialog])\<rparr>"

definition output_right_released :: Output where
  "output_right_released = output_right\<lparr>layers := (\<lambda>l. [])(TOP := [released_launcher])\<rparr>"

definition output_right_empty :: Output where
  "output_right_empty = output_right\<lparr>layers := (\<lambda>l. [])\<rparr>"

definition bar_three_edges :: LayerStatic where
  "bar_three_edges =
     \<lparr>ident = 6,
      current = \<lparr>exclusive_zone = 2000, keyboard_interactive = NONE,
                 desired_width = 0, desired_height = 2000,
                 anchor = {ANCHOR_TOP, ANCHOR_LEFT, ANCHOR_RIGHT}\<rparr>\<rparr>"

text \<open>Windows that lie flush against each of the four sides of \<open>output_1080p\<close>.\<close>

definition window_flush_right :: Rect where
  "window_flush_right = \<lparr>rect_x = 1920, rect_y = 0, rect_width = 1280, rect_height = 1024\<rparr>"

definition window_flush_left :: Rect where
  "window_flush_left = \<lparr>rect_x = - 1280, rect_y = 0, rect_width = 1280, rect_height = 1024\<rparr>"

definition window_flush_above :: Rect where
  "window_flush_above = \<lparr>rect_x = 0, rect_y = - 1024, rect_width = 1280, rect_height = 1024\<rparr>"

definition window_flush_below :: Rect where
  "window_flush_below = \<lparr>rect_x = 0, rect_y = 1080, rect_width = 1280, rect_height = 1024\<rparr>"

section \<open>Geometry queries\<close>

lemma contains_iff:
  "contains out rect \<longleftrightarrow>
     \<not> (rect_x rect + rect_width rect < out_x out
        \<or> rect_y rect + rect_height rect < out_y out
        \<or> out_x out + effective_width (wlr_output out) < rect_x rect
        \<or> out_y out + effective_height (wlr_output out) < rect_y rect)"
  by (simp add: contains_def effective_resolution_def)

lemma bounding_box_simps:
  "box_x (bounding_box out) = out_x out"
  "box_y (bounding_box out) = out_y out"
  "box_width (bounding_box out) = effective_width (wlr_output out)"
  "box_height (bounding_box out) = effective_height (wlr_output out)"
  by (simp_all add: bounding_box_def get_geometry_def effective_resolution_def)

text \<open>
  Claim C7. \<^verbatim>\<open>contains(rect)\<close> is to be false when the rectangle lies entirely left of,
  above, right of or below the bounding box of the output, and its docstring promises
  "whether the given window is visible on this output". The code compares with \<open><\<close>
  where \<open>\<le>\<close> is needed: a window of the next monitor, which begins in the column where
  \<open>output_1080p\<close> ends, lies entirely right of the output and shares no column with it,
  and \<^verbatim>\<open>contains\<close> answers true; likewise for a window flush against each other side.
\<close>

theorem contains_true_for_window_entirely_outside:
  "entirely_right_of window_flush_right (bounding_box output_1080p)
   \<and> overlap_extent (rect_x window_flush_right) (rect_width window_flush_right)
        (out_x output_1080p) (effective_width (wlr_output output_1080p)) = 0
   \<and> contains output_1080p window_flush_right
   \<and> entirely_left_of window_flush_left (bounding_box output_1080p)
   \<and> contains output_1080p window_flush_left
   \<and> entirely_above window_flush_above (bounding_box output_1080p)
   \<and> contains output_1080p window_flush_above
   \<and> entirely_below window_flush_below (bounding_box output_1080p)
   \<and> contains output_1080p window_flush_below"
  by (simp add: contains_iff entirely_left_of_def entirely_above_def entirely_right_of_def
      entirely_below_def bounding_box_simps overlap_extent_def output_1080p_def
      window_flush_right_def window_flush_left_def window_flush_above_def
      window_flush_below_def)

text \<open>
  Claim C9. The four comparisons of \<^verbatim>\<open>contains\<close> are strict. On every side, a rectangle
  that lies beyond the side of the output, by one unit or more, gives false. A rectangle
  that only touches the side gives true: with sizes that are not negative, a rectangle
  whose right edge is the left edge of the output, or whose left edge is the right edge
  of the output, and which is neither beyond the top nor beyond the bottom of the
  output, gives true, and likewise on the vertical axis; yet the intersection of the two
  has no extent along the axis of the touch.
\<close>

theorem contains_touching_boundary:
  assumes "0 \<le> rect_width rect" and "0 \<le> rect_height rect"
    and "0 \<le> effective_width (wlr_output out)" and "0 \<le> effective_height (wlr_output out)"
  shows "((rect_x rect + rect_width rect = out_x out
             \<or> rect_x rect = out_x out + effective_width (wlr_output out))
          \<and> \<not> rect_y rect + rect_height rect < out_y out
          \<and> \<not> out_y out + effective_height (wlr_output out) < rect_y rect
          \<longrightarrow> contains out rect
              \<and> overlap_extent (rect_x rect) (rect_width rect)
                   (out_x out) (effective_width (wlr_output out)) = 0)
       \<and> ((rect_y rect + rect_height rect = out_y out
             \<or> rect_y rect = out_y out + effective_height (wlr_output out))
          \<and> \<not> rect_x rect + rect_width rect < out_x out
          \<and> \<not> out_x out + effective_width (wlr_output out) < rect_x rect
          \<longrightarrow> contains out rect
              \<and> overlap_extent (rect_y rect) (rect_height rect)
                   (out_y out) (effective_height (wlr_output out)) = 0)
       \<and> (rect_x rect + rect_width rect < out_x out \<longrightarrow> \<not> contains out rect)
       \<and> (rect_y rect + rect_height rect < out_y out \<longrightarrow> \<not> contains out rect)
       \<and> (out_x out + effective_width (wlr_output out) < rect_x rect \<longrightarrow> \<not> contains out rect)
       \<and> (out_y out + effective_height (wlr_output out) < rect_y rect \<longrightarrow> \<not> contains out rect)"
  using assms
  by (auto simp add: contains_iff overlap_extent_def)

theorem contains_touching_boundary_witness:
  "contains output_1080p \<lparr>rect_x = - 300, rect_y = 10, rect_width = 300, rect_height = 50\<rparr>
   \<and> \<not> contains output_1080p \<lparr>rect_x = - 301, rect_y = 10, rect_width = 300, rect_height = 50\<rparr>
   \<and> contains output_1080p \<lparr>rect_x = 1920, rect_y = 10, rect_width = 300, rect_height = 50\<rparr>
   \<and> \<not> contains output_1080p \<lparr>rect_x = 1921, rect_y = 10, rect_width = 300, rect_height = 50\<rparr>
   \<and> contains output_1080p \<lparr>rect_x = 10, rect_y = - 50, rect_width = 300, rect_height = 50\<rparr>
   \<and> \<not> contains output_1080p \<lparr>rect_x = 10, rect_y = - 51, rect_width = 300, rect_height = 50\<rparr>
   \<and> contains output_1080p \<lparr>rect_x = 10, rect_y = 1080, rect_width = 300, rect_height = 50\<rparr>
   \<and> \<not> contains output_1080p \<lparr>rect_x = 10, rect_y = 1081, rect_width = 300, rect_height = 50\<rparr>
   \<and> overlap_extent (- 300) 300 0 1920 = 0"
  using contains_touching_boundary [of
      "\<lparr>rect_x = - 300, rect_y = 10, rect_width = 300, rect_height = 50\<rparr>" output_1080p]
    contains_touching_boundary [of
      "\<lparr>rect_x = - 301, rect_y = 10, rect_width = 300, rect_height = 50\<rparr>" output_1080p]
    contains_touching_boundary [of
      "\<lparr>rect_x = 1920, rect_y = 10, rect_width = 300, rect_height = 50\<rparr>" output_1080p]
    contains_touching_boundary [of
      "\<lparr>rect_x = 1921, rect_y = 10, rect_width = 300, rect_height = 50\<rparr>" output_1080p]
    contains_touching_boundary [of
      "\<lparr>rect_x = 10, rect_y = - 50, rect_width = 300, rect_height = 50\<rparr>" output_1080p]
    contains_touching_boundary [of
      "\<lparr>rect_x = 10, rect_y = - 51, rect_width = 300, rect_height = 50\<rparr>" output_1080p]
    contains_touching_boundary [of
      "\<lparr>rect_x = 10, rect_y = 1080, rect_width = 300, rect_height = 50\<rparr>" output_1080p]
    contains_touching_boundary [of
      "\<lparr>rect_x = 10, rect_y = 1081, rect_width = 300, rect_height = 50\<rparr>" output_1080p]
  by (simp add: output_1080p_def)

section \<open>The frame handler\<close>

text \<open>
  Claim C6. When the commit of the scene output fails with \<^verbatim>\<open>RuntimeError\<close>, the frame
  handler returns normally and makes no further call; when the commit succeeds,
  \<^verbatim>\<open>send_frame_done\<close> is called once, with the time read from the monotonic clock.
  \<^verbatim>\<open>send_frame_done\<close> is called if and only if the commit succeeds.
\<close>

theorem on_frame_sends_iff_commit_succeeds:
  "on_frame (Inl RuntimeError) t = Inr []
   \<and> on_frame (Inr ()) t = Inr [SendFrameDone t]
   \<and> ((\<exists>evs t'. on_frame c t = Inr evs \<and> SendFrameDone t' \<in> set evs) \<longleftrightarrow> c = Inr ())"
  by (cases c) (auto simp add: on_frame_def)

section \<open>The screen of an output\<close>

lemma screen_loop_find:
  "screen_loop x y w h ss =
     List.find (\<lambda>s. screen_x s = x \<and> screen_y s = y \<and> screen_width s = w \<and> screen_height s = h) ss"
  by (induction ss) auto

text \<open>
  Claim C8. With more than one screen configured, the screen of an output is the first
  screen of the list whose position and size are exactly the geometry of the output;
  when no screen matches, or when at most one screen is configured, it is the current
  screen.
\<close>

theorem screen_first_exact_match:
  assumes "qtile core = Some q"
  shows "screen core out =
           Inr (if 1 < length (screens q) then
                  (case List.find (matches_geometry out) (screens q) of
                     Some s \<Rightarrow> s
                   | None \<Rightarrow> current_screen q)
                else current_screen q)"
proof -
  have "matches_geometry out =
          (\<lambda>s. screen_x s = out_x out \<and> screen_y s = out_y out
                \<and> screen_width s = effective_width (wlr_output out)
                \<and> screen_height s = effective_height (wlr_output out))"
    by (rule ext) (simp add: matches_geometry_def)
  then show ?thesis
    using assms
    by (simp add: screen_def get_geometry_def effective_resolution_def screen_loop_find
        split: option.split)
qed

theorem screen_first_exact_match_witness:
  "screen core_three_screens output_1080p = Inr screen_b
   \<and> screen (core_three_screens\<lparr>qtile := Some \<lparr>screens = [screen_b], current_screen = screen_a\<rparr>\<rparr>)
       output_1080p = Inr screen_a
   \<and> screen (core_three_screens\<lparr>qtile := Some \<lparr>screens = [screen_a, screen_a],
       current_screen = screen_c\<rparr>\<rparr>) output_1080p = Inr screen_c"
  using screen_first_exact_match [of core_three_screens
      "\<lparr>screens = [screen_a, screen_b, screen_c], current_screen = screen_a\<rparr>" output_1080p]
    screen_first_exact_match [of
      "core_three_screens\<lparr>qtile := Some \<lparr>screens = [screen_b], current_screen = screen_a\<rparr>\<rparr>"
      "\<lparr>screens = [screen_b], current_screen = screen_a\<rparr>" output_1080p]
    screen_first_exact_match [of
      "core_three_screens\<lparr>qtile := Some \<lparr>screens = [screen_a, screen_a],
         current_screen = screen_c\<rparr>\<rparr>"
      "\<lparr>screens = [screen_a, screen_a], current_screen = screen_c\<rparr>" output_1080p]
  by (simp add: core_three_screens_def output_1080p_def matches_geometry_def
      screen_a_def screen_b_def screen_c_def)

section \<open>The placement passes as loops over one list\<close>

lemma organise_layer_loop_append:
  "organise_layer_loop cfg full excl (xs @ ys) u =
     (case organise_layer_loop cfg full excl xs u of
        (u', evs) \<Rightarrow>
          (case organise_layer_loop cfg full excl ys u' of
             (u'', evs') \<Rightarrow> (u'', evs @ evs')))"
  by (induction xs arbitrary: u) (auto simp add: Let_def split: prod.splits)

lemma organise_each_concat:
  "organise_each cfg out full excl ls u =
     organise_layer_loop cfg full excl (concat (map (layers out) ls)) u"
  by (induction ls arbitrary: u)
    (auto simp add: organise_layer_def organise_layer_loop_append split: prod.splits)

lemma organise_each_all_surfaces:
  "organise_each cfg out full excl (rev LayerShellV1Layer_members) u =
     organise_layer_loop cfg full excl (all_surfaces out) u"
  by (simp add: organise_each_concat LayerShellV1Layer_members_def all_surfaces_def)

lemma organise_each_layers_only:
  "layers out' = layers out \<Longrightarrow>
   organise_each cfg out' full excl ls u = organise_each cfg out full excl ls u"
  by (simp add: organise_each_concat)

lemma configured_append: "configured (xs @ ys) = configured xs @ configured ys"
  by (induction xs rule: configured.induct) auto

lemma placed_append: "placed (xs @ ys) = placed xs @ placed ys"
  by (induction xs rule: placed.induct) auto

lemma usable_areas_passed_append:
  "usable_areas_passed (xs @ ys) = usable_areas_passed xs @ usable_areas_passed ys"
  by (induction xs rule: usable_areas_passed.induct) auto

lemma focus_requests_append: "focus_requests (xs @ ys) = focus_requests xs @ focus_requests ys"
  by (induction xs rule: focus_requests.induct) auto

lemma reserve_space_calls_append:
  "reserve_space_calls (xs @ ys) = reserve_space_calls xs @ reserve_space_calls ys"
  by (induction xs rule: reserve_space_calls.induct) auto

lemma loop_configured:
  "configured (snd (organise_layer_loop cfg full excl ws u)) =
     map ident (filter (\<lambda>w. excl = reserves w) ws)"
  by (cases excl; induction ws arbitrary: u) (simp_all add: Let_def reserves_def split_beta)

lemma loop_placed:
  "placed (snd (organise_layer_loop cfg full excl ws u)) =
     map ident (filter (\<lambda>w. excl = reserves w) ws)"
  by (cases excl; induction ws arbitrary: u) (simp_all add: Let_def reserves_def split_beta)

lemma loop_no_focus:
  "focus_requests (snd (organise_layer_loop cfg full excl ws u)) = []"
  by (cases excl; induction ws arbitrary: u) (simp_all add: Let_def split_beta)

lemma loop_no_reserve:
  "reserve_space_calls (snd (organise_layer_loop cfg full excl ws u)) = []"
  by (cases excl; induction ws arbitrary: u) (simp_all add: Let_def split_beta)

lemma loop_keeps_usable:
  assumes "\<And>w f a. \<not> reserves w \<Longrightarrow> fst (cfg w f a) = a"
  shows "fst (organise_layer_loop cfg full False ws u) = u
         \<and> set (usable_areas_passed (snd (organise_layer_loop cfg full False ws u))) \<subseteq> {u}"
proof (induction ws)
  case Nil
  then show ?case by simp
next
  case (Cons w ws)
  show ?case
  proof (cases "reserves w")
    case True
    then show ?thesis using Cons by (simp add: Let_def reserves_def)
  next
    case False
    then have "fst (cfg w full u) = u" by (rule assms)
    then show ?thesis using Cons False
      by (auto simp add: Let_def reserves_def split: prod.splits)
  qed
qed


section \<open>The scan for keyboard focus\<close>

lemma scan_layer_append:
  "scan_layer (xs @ ys) h =
     (case scan_layer xs h of
        (returned, h', evs) \<Rightarrow> if returned then (returned, h', evs) else scan_layer ys h')"
  by (induction xs arbitrary: h) auto

lemma scan_layer_not_returned_no_events:
  "scan_layer ws h = (False, h', evs) \<Longrightarrow> evs = []"
  by (induction ws arbitrary: h) (auto split: if_splits)

lemma scan_layers_scanned:
  "scan_layers out [OVERLAY, TOP] h = snd (scan_layer (scanned_surfaces out) h)"
  by (auto simp add: scanned_surfaces_def scan_layer_append split: prod.splits
      dest: scan_layer_not_returned_no_events)

lemma scan_layer_find:
  "scan_layer ws h =
     (case List.find (\<lambda>w. keyboard_interactive (current w) = EXCLUSIVE) ws of
        Some w \<Rightarrow> (True, Some (ident w), [FocusWindow (ident w)])
      | None \<Rightarrow>
          (False, (if \<exists>i. h = Some i \<and> i \<in> ident ` set ws then None else h), []))"
  by (induction ws arbitrary: h) auto

lemma scan_holder_cases:
  "fst (snd (scan_layer ws h)) =
     (case List.find is_exclusive ws of
        Some w \<Rightarrow> Some (ident w)
      | None \<Rightarrow> if \<exists>i. h = Some i \<and> i \<in> ident ` set ws then None else h)"
proof -
  have "is_exclusive = (\<lambda>w. keyboard_interactive (current w) = EXCLUSIVE)"
    by (rule ext) (simp add: is_exclusive_def)
  then show ?thesis
    by (simp add: scan_layer_find split: option.split)
qed

lemma find_first_match:
  "\<forall>w \<in> set pre. \<not> P w \<Longrightarrow> P s \<Longrightarrow> List.find P (pre @ s # post) = Some s"
  by (induction pre) auto

lemma find_Some_holds: "List.find P xs = Some x \<Longrightarrow> x \<in> set xs \<and> P x"
  by (induction xs) (auto split: if_splits)

lemma find_None_none: "List.find P xs = None \<longleftrightarrow> (\<forall>x \<in> set xs. \<not> P x)"
  by (induction xs) auto

lemma scan_layer_first_exclusive:
  assumes "\<forall>w \<in> set pre. keyboard_interactive (current w) \<noteq> EXCLUSIVE"
    and "keyboard_interactive (current s) = EXCLUSIVE"
  shows "scan_layer (pre @ s # post) h = (True, Some (ident s), [FocusWindow (ident s)])"
  using find_first_match [of pre "\<lambda>w. keyboard_interactive (current w) = EXCLUSIVE" s post] assms
  by (simp add: scan_layer_find)

section \<open>The whole of \<^verbatim>\<open>organise_layers\<close>\<close>

lemma matches_geometry_eq:
  "matches_geometry out =
     (\<lambda>s. screen_x s = out_x out \<and> screen_y s = out_y out
           \<and> screen_width s = effective_width (wlr_output out)
           \<and> screen_height s = effective_height (wlr_output out))"
  by (rule ext) (simp add: matches_geometry_def)

lemma screen_attached:
  "qtile core = Some q \<Longrightarrow> screen core out = Inr (mapped_screen q out)"
  by (simp add: screen_def get_geometry_def effective_resolution_def screen_loop_find
      mapped_screen_def matches_geometry_eq split: option.split)

lemma mapped_screen_reserved [simp]:
  "mapped_screen q (out\<lparr>reserved_space := r\<rparr>) = mapped_screen q out"
  by (simp add: mapped_screen_def matches_geometry_eq)

lemma all_surfaces_reserved [simp]:
  "all_surfaces (out\<lparr>reserved_space := r\<rparr>) = all_surfaces out"
  by (simp add: all_surfaces_def)

lemma scanned_surfaces_reserved [simp]:
  "scanned_surfaces (out\<lparr>reserved_space := r\<rparr>) = scanned_surfaces out"
  by (simp add: scanned_surfaces_def)

lemma full_area_reserved [simp]:
  "full_area (out\<lparr>reserved_space := r\<rparr>) = full_area out"
  by (simp add: full_area_def)

text \<open>
  With qtile attached the call returns; its result is written over the flattened lists
  of surfaces.
\<close>

lemma organise_layers_attached:
  assumes "qtile core = Some q"
  shows "organise_layers cfg core out =
     Inr (core\<lparr>exclusive_layer :=
                 fst (snd (scan_layer (scanned_surfaces out) (exclusive_layer core)))\<rparr>,
          out\<lparr>reserved_space :=
                 new_reserved_space (effective_width (wlr_output out))
                   (effective_height (wlr_output out))
                   (fst (organise_layer_loop cfg (full_area out) True (all_surfaces out)
                           (full_area out)))\<rparr>,
          snd (organise_layer_loop cfg (full_area out) True (all_surfaces out) (full_area out))
          @ [ReserveSpace
               (delta_of
                  (new_reserved_space (effective_width (wlr_output out))
                     (effective_height (wlr_output out))
                     (fst (organise_layer_loop cfg (full_area out) True (all_surfaces out)
                             (full_area out))))
                  (reserved_space out))
               (mapped_screen q out)]
          @ snd (organise_layer_loop cfg (full_area out) False (all_surfaces out)
                   (fst (organise_layer_loop cfg (full_area out) True (all_surfaces out)
                           (full_area out))))
          @ snd (snd (scan_layer (scanned_surfaces out) (exclusive_layer core))))"
  using assms
  by (simp add: organise_layers_def effective_resolution_def organise_each_all_surfaces
      screen_attached scan_layers_scanned full_area_def [symmetric] split_beta Let_def
      organise_each_layers_only [of "out\<lparr>reserved_space := r\<rparr>" out for r]
      del: scan_layers.simps)

lemma organise_layers_detached:
  "qtile core = None \<Longrightarrow> organise_layers cfg core out = Inl AttributeError"
  by (simp add: organise_layers_def split_beta Let_def)

lemma organise_layers_Inr_attached:
  "organise_layers cfg core out = Inr r \<Longrightarrow> \<exists>q. qtile core = Some q"
  by (cases "qtile core") (simp_all add: organise_layers_detached)

lemma organise_layers_holder:
  assumes "organise_layers cfg core out = Inr (core', out', evs)"
  shows "exclusive_layer core' = fst (snd (scan_layer (scanned_surfaces out) (exclusive_layer core)))"
    and "scanned_surfaces out' = scanned_surfaces out"
proof -
  from assms obtain q where q: "qtile core = Some q"
    using organise_layers_Inr_attached by blast
  from assms show "exclusive_layer core' =
      fst (snd (scan_layer (scanned_surfaces out) (exclusive_layer core)))"
    and "scanned_surfaces out' = scanned_surfaces out"
    unfolding organise_layers_attached [OF q] by auto
qed

lemma delta_of_self: "delta_of m m = (0, 0, 0, 0)"
  by (cases m) simp

section \<open>The placement capability of the spec\<close>

lemma configure_spec_keeps: "\<not> reserves w \<Longrightarrow> fst (configure_spec w f a) = a"
  by (simp add: configure_spec_def reserves_def Let_def)

text \<open>A bar anchored to the top, left and right edges takes its zone from the top.\<close>

lemma configure_spec_three_edges:
  "fst (configure_spec bar_three_edges full_1080p full_1080p) =
     \<lparr>box_x = 0, box_y = 2000, box_width = 1920, box_height = - 920\<rparr>"
  by (simp add: configure_spec_def anchored_edge_def bar_three_edges_def full_1080p_def Let_def)


section \<open>Evaluation of the example states\<close>

lemmas example_defs =
  core_one_screen_def core_launcher_holds_def output_1080p_def
  panel_def wallpaper_def launcher_def dialog_def tall_panel_def full_1080p_def
  usable_below_panel_def

lemmas eval_defs =
  organise_layers_def effective_resolution_def LayerShellV1Layer_members_def
  organise_layer_def Let_def configure_spec_def anchored_edge_def screen_def
  new_reserved_space_def

lemma eval_b:
  "organise_layers configure_spec core_one_screen output_scenario_b =
     Inr (core_one_screen, output_scenario_b\<lparr>reserved_space := (0, 0, 32, 0)\<rparr>,
          [Configure 1 full_1080p full_1080p, Place 1 0 0 1920 32,
           ReserveSpace (0, 0, 32, 0) screen_b,
           Configure 2 full_1080p usable_below_panel, Place 2 0 32 1920 1048])"
  by (simp add: organise_layers_def core_one_screen_def output_scenario_b_def output_1080p_def
      effective_resolution_def LayerShellV1Layer_members_def organise_layer_def Let_def
      configure_spec_def anchored_edge_def panel_def wallpaper_def screen_def
      new_reserved_space_def
      full_1080p_def usable_below_panel_def)

lemma eval_c:
  "organise_layers configure_spec core_one_screen output_scenario_c =
     Inr (core_launcher_holds, output_scenario_c,
          [ReserveSpace (0, 0, 0, 0) screen_b,
           Configure 3 full_1080p full_1080p, Place 3 0 0 600 400,
           Configure 4 full_1080p full_1080p, Place 4 0 0 300 200,
           FocusWindow 3])"
  by (simp add: eval_defs example_defs output_scenario_c_def)


lemma eval_launcher_overlay:
  "organise_layers configure_spec core_one_screen output_launcher_overlay =
     Inr (core_launcher_holds, output_launcher_overlay,
          [ReserveSpace (0, 0, 0, 0) screen_b,
           Configure 3 full_1080p full_1080p, Place 3 0 0 600 400,
           FocusWindow 3])"
  by (simp add: eval_defs example_defs output_launcher_overlay_def)

lemma eval_launcher_bottom:
  "organise_layers configure_spec core_launcher_holds output_launcher_bottom =
     Inr (core_launcher_holds, output_launcher_bottom,
          [ReserveSpace (0, 0, 0, 0) screen_b,
           Configure 3 full_1080p full_1080p, Place 3 0 0 600 400])"
  by (simp add: eval_defs example_defs output_launcher_bottom_def)

lemma eval_right:
  "organise_layers configure_spec core_launcher_holds output_right =
     Inr (core_launcher_holds\<lparr>exclusive_layer := Some 4\<rparr>, output_right,
          [ReserveSpace (0, 0, 0, 0) screen_b,
           Configure 4 full_right full_right, Place 4 0 0 300 200,
           FocusWindow 4])"
  by (simp add: eval_defs example_defs output_right_def full_right_def)

lemma eval_right_released:
  "organise_layers configure_spec core_launcher_holds output_right_released =
     Inr (core_launcher_holds\<lparr>exclusive_layer := None\<rparr>, output_right_released,
          [ReserveSpace (0, 0, 0, 0) screen_b,
           Configure 3 full_right full_right, Place 3 0 0 600 400])"
  by (simp add: eval_defs example_defs output_right_def full_right_def
      output_right_released_def released_launcher_def)

lemma eval_right_empty:
  "organise_layers configure_spec core_launcher_holds output_right_empty =
     Inr (core_launcher_holds, output_right_empty, [ReserveSpace (0, 0, 0, 0) screen_b])"
  by (simp add: eval_defs example_defs output_right_def output_right_empty_def)

section \<open>The two placement passes\<close>

text \<open>
  Claim C2. The exclusive pass visits the layers in the order OVERLAY, TOP, BOTTOM,
  BACKGROUND and the surfaces of a layer in their order in the list; it configures and
  places exactly the surfaces whose exclusive zone is positive. All its calls come before
  \<^verbatim>\<open>reserve_space\<close>, and all calls of the other pass after it, so every reserving surface
  is configured before any other surface is placed. The other pass configures and places
  exactly the surfaces whose exclusive zone is not positive, each against the usable area
  that the exclusive pass left, from which the reserved space is computed; this last part
  for a \<^verbatim>\<open>configure\<close> that leaves the usable area alone for a surface that reserves
  nothing, as the backend is described to do.
\<close>

theorem organise_layers_two_passes:
  assumes "organise_layers cfg core out = Inr (core', out', evs)"
  shows "case organise_each cfg out (full_area out) True (rev LayerShellV1Layer_members)
                (full_area out) of
           (usable, evs1) \<Rightarrow>
             (case organise_each cfg out (full_area out) False (rev LayerShellV1Layer_members)
                     usable of
                (usable', evs2) \<Rightarrow>
                  configured evs1 = map ident (filter reserves (all_surfaces out))
                  \<and> placed evs1 = map ident (filter reserves (all_surfaces out))
                  \<and> configured evs2 = map ident (filter (\<lambda>w. \<not> reserves w) (all_surfaces out))
                  \<and> placed evs2 = map ident (filter (\<lambda>w. \<not> reserves w) (all_surfaces out))
                  \<and> reserved_space out' =
                      new_reserved_space (effective_width (wlr_output out))
                        (effective_height (wlr_output out)) usable
                  \<and> (\<exists>scr evs3.
                        screen core out = Inr scr
                        \<and> evs = evs1
                            @ [ReserveSpace (delta_of (reserved_space out') (reserved_space out)) scr]
                            @ evs2 @ evs3
                        \<and> configured evs3 = [] \<and> placed evs3 = [])
                  \<and> ((\<forall>w f a. \<not> reserves w \<longrightarrow> fst (cfg w f a) = a) \<longrightarrow>
                        set (usable_areas_passed evs2) \<subseteq> {usable} \<and> usable' = usable))"
proof -
  from assms(1) obtain q where q: "qtile core = Some q"
    using organise_layers_Inr_attached by blast
  have scan: "configured (snd (snd (scan_layer ws h))) = []
              \<and> placed (snd (snd (scan_layer ws h))) = []" for ws h
    by (simp add: scan_layer_find split: option.split)
  have t: "(\<lambda>w. True = reserves w) = reserves" and f: "(\<lambda>w. False = reserves w) = (\<lambda>w. \<not> reserves w)"
    by auto
  from assms(1) have o': "out' = out\<lparr>reserved_space :=
                 new_reserved_space (effective_width (wlr_output out))
                   (effective_height (wlr_output out))
                   (fst (organise_layer_loop cfg (full_area out) True (all_surfaces out)
                           (full_area out)))\<rparr>"
    and e: "evs =
          snd (organise_layer_loop cfg (full_area out) True (all_surfaces out) (full_area out))
          @ [ReserveSpace
               (delta_of
                  (new_reserved_space (effective_width (wlr_output out))
                     (effective_height (wlr_output out))
                     (fst (organise_layer_loop cfg (full_area out) True (all_surfaces out)
                             (full_area out))))
                  (reserved_space out))
               (mapped_screen q out)]
          @ snd (organise_layer_loop cfg (full_area out) False (all_surfaces out)
                   (fst (organise_layer_loop cfg (full_area out) True (all_surfaces out)
                           (full_area out))))
          @ snd (snd (scan_layer (scanned_surfaces out) (exclusive_layer core)))"
    unfolding organise_layers_attached [OF q] by auto
  have keep: "fst (organise_layer_loop cfg (full_area out) False (all_surfaces out) u) = u
         \<and> set (usable_areas_passed
                  (snd (organise_layer_loop cfg (full_area out) False (all_surfaces out) u)))
             \<subseteq> {u}"
    if "\<forall>w f a. \<not> reserves w \<longrightarrow> fst (cfg w f a) = a" for u
    using that loop_keeps_usable [of cfg "full_area out" "all_surfaces out" u] by blast
  show ?thesis
    unfolding organise_each_all_surfaces
    using keep
    by (simp add: split_beta scan t f screen_attached [OF q] o' e
        loop_configured loop_placed)
qed

theorem organise_layers_two_passes_witness:
  "organise_layers configure_spec core_one_screen output_scenario_b =
     Inr (core_one_screen, output_scenario_b\<lparr>reserved_space := (0, 0, 32, 0)\<rparr>,
          [Configure 1 full_1080p full_1080p, Place 1 0 0 1920 32,
           ReserveSpace (0, 0, 32, 0) screen_b,
           Configure 2 full_1080p usable_below_panel, Place 2 0 32 1920 1048])
   \<and> organise_each configure_spec output_scenario_b (full_area output_scenario_b) True
       (rev LayerShellV1Layer_members) (full_area output_scenario_b)
       = (usable_below_panel, [Configure 1 full_1080p full_1080p, Place 1 0 0 1920 32])
   \<and> organise_each configure_spec output_scenario_b (full_area output_scenario_b) False
       (rev LayerShellV1Layer_members) usable_below_panel
       = (usable_below_panel, [Configure 2 full_1080p usable_below_panel, Place 2 0 32 1920 1048])
   \<and> map ident (filter reserves (all_surfaces output_scenario_b)) = [1]
   \<and> map ident (filter (\<lambda>w. \<not> reserves w) (all_surfaces output_scenario_b)) = [2]
   \<and> set (usable_areas_passed
             [Configure 2 full_1080p usable_below_panel, Place 2 0 32 1920 1048])
       \<subseteq> {usable_below_panel}"
proof -
  have p1: "organise_each configure_spec output_scenario_b (full_area output_scenario_b) True
       (rev LayerShellV1Layer_members) (full_area output_scenario_b)
       = (usable_below_panel, [Configure 1 full_1080p full_1080p, Place 1 0 0 1920 32])"
    by (simp add: eval_defs example_defs output_scenario_b_def full_area_def)
  have p2: "organise_each configure_spec output_scenario_b (full_area output_scenario_b) False
       (rev LayerShellV1Layer_members) usable_below_panel
       = (usable_below_panel, [Configure 2 full_1080p usable_below_panel, Place 2 0 32 1920 1048])"
    by (simp add: eval_defs example_defs output_scenario_b_def full_area_def)
  have k: "\<forall>w f a. \<not> reserves w \<longrightarrow> fst (configure_spec w f a) = a"
    by (simp add: configure_spec_keeps)
  show ?thesis
    using organise_layers_two_passes [OF eval_b] eval_b k
    by (simp add: p1 p2)
qed

section \<open>The reserved space\<close>

text \<open>
  Claim C3. When \<^verbatim>\<open>organise_layers\<close> has returned and is called again on the core and
  the output that it left, with the same surfaces and the same effective resolution, the
  second call returns as well and reports the delta \<open>(0, 0, 0, 0)\<close>, once, for the screen
  of the output; the reserved space stays what the first call stored.
\<close>

theorem organise_layers_twice_zero_delta:
  assumes "organise_layers cfg core out = Inr (core1, out1, evs1)"
  shows "\<exists>core2 out2 evs2 scr.
           organise_layers cfg core1 out1 = Inr (core2, out2, evs2)
           \<and> screen core1 out1 = Inr scr
           \<and> reserve_space_calls evs2 = [((0, 0, 0, 0), scr)]
           \<and> reserved_space out2 = reserved_space out1"
proof -
  from assms obtain q where q: "qtile core = Some q"
    using organise_layers_Inr_attached by blast
  from assms have c1: "qtile core1 = Some q"
    and o1: "out1 = out\<lparr>reserved_space :=
                 new_reserved_space (effective_width (wlr_output out))
                   (effective_height (wlr_output out))
                   (fst (organise_layer_loop cfg (full_area out) True (all_surfaces out)
                           (full_area out)))\<rparr>"
    unfolding organise_layers_attached [OF q] using q by auto
  have scr: "screen core1 out1 = Inr (mapped_screen q out1)"
    using c1 by (rule screen_attached)
  show ?thesis
    unfolding organise_layers_attached [OF c1] scr
    by (simp add: o1 reserve_space_calls_append loop_no_reserve delta_of_self
        scan_layer_find split: option.split)
qed

theorem organise_layers_twice_zero_delta_witness:
  "organise_layers configure_spec core_one_screen output_scenario_b =
     Inr (core_one_screen, output_scenario_b\<lparr>reserved_space := (0, 0, 32, 0)\<rparr>,
          [Configure 1 full_1080p full_1080p, Place 1 0 0 1920 32,
           ReserveSpace (0, 0, 32, 0) screen_b,
           Configure 2 full_1080p usable_below_panel, Place 2 0 32 1920 1048])
   \<and> (\<exists>core2 out2 evs2.
         organise_layers configure_spec core_one_screen
           (output_scenario_b\<lparr>reserved_space := (0, 0, 32, 0)\<rparr>) = Inr (core2, out2, evs2)
         \<and> reserve_space_calls evs2 = [((0, 0, 0, 0), screen_b)])"
proof -
  have "screen core_one_screen (output_scenario_b\<lparr>reserved_space := (0, 0, 32, 0)\<rparr>)
          = Inr screen_b"
    by (simp add: screen_def core_one_screen_def)
  then show ?thesis
    using organise_layers_twice_zero_delta [OF eval_b] eval_b by auto
qed




section \<open>Exclusive keyboard focus\<close>

text \<open>
  Claim C5. The first surface in the order of the scan (the OVERLAY layer before the TOP
  layer, and the order of the list within a layer) whose committed keyboard interactivity
  is EXCLUSIVE becomes the holder of exclusive focus, and focus is requested for it and
  for no other window. The scan stops there: its result is the same whatever the holder
  was before and whatever surfaces follow. With an EXCLUSIVE surface in the OVERLAY layer
  and another in the TOP layer, the holder is the former.
\<close>

theorem first_exclusive_surface_takes_focus:
  assumes "organise_layers cfg core out = Inr (core', out', evs)"
    and "layers out OVERLAY @ layers out TOP = pre @ s # post"
    and "\<forall>w \<in> set pre. keyboard_interactive (current w) \<noteq> EXCLUSIVE"
    and "keyboard_interactive (current s) = EXCLUSIVE"
  shows "exclusive_layer core' = Some (ident s)
       \<and> focus_requests evs = [ident s]
       \<and> scan_layers out [OVERLAY, TOP] (exclusive_layer core)
           = (Some (ident s), [FocusWindow (ident s)])
       \<and> (\<forall>out2 holder2 post2.
             layers out2 OVERLAY @ layers out2 TOP = pre @ s # post2 \<longrightarrow>
             scan_layers out2 [OVERLAY, TOP] holder2
               = scan_layers out [OVERLAY, TOP] (exclusive_layer core))"
proof -
  from assms(1) obtain q where q: "qtile core = Some q"
    using organise_layers_Inr_attached by blast
  have sc: "scan_layer (scanned_surfaces out) h
              = (True, Some (ident s), [FocusWindow (ident s)])" for h
    unfolding scanned_surfaces_def assms(2)
    using assms(3,4) by (rule scan_layer_first_exclusive)
  have sc2: "scan_layers out2 [OVERLAY, TOP] h2 = (Some (ident s), [FocusWindow (ident s)])"
    if "layers out2 OVERLAY @ layers out2 TOP = pre @ s # post2" for out2 h2 post2
    unfolding scan_layers_scanned scanned_surfaces_def that
    using scan_layer_first_exclusive [OF assms(3,4)] by simp
  from assms(1) have "exclusive_layer core' = Some (ident s)" and "focus_requests evs = [ident s]"
    unfolding organise_layers_attached [OF q]
    by (auto simp add: sc focus_requests_append loop_no_focus)
  then show ?thesis
    using sc2 [OF assms(2)] sc2 by simp
qed

theorem first_exclusive_surface_takes_focus_witness:
  "organise_layers configure_spec core_one_screen output_scenario_c =
     Inr (core_launcher_holds, output_scenario_c,
          [ReserveSpace (0, 0, 0, 0) screen_b,
           Configure 3 full_1080p full_1080p, Place 3 0 0 600 400,
           Configure 4 full_1080p full_1080p, Place 4 0 0 300 200,
           FocusWindow 3])
   \<and> layers output_scenario_c OVERLAY = [launcher]
   \<and> layers output_scenario_c TOP = [dialog]
   \<and> keyboard_interactive (current launcher) = EXCLUSIVE
   \<and> keyboard_interactive (current dialog) = EXCLUSIVE
   \<and> exclusive_layer core_launcher_holds = Some (ident launcher)
   \<and> scan_layers output_scenario_c [OVERLAY, TOP] None
       = (Some (ident launcher), [FocusWindow (ident launcher)])"
proof -
  have l: "layers output_scenario_c OVERLAY @ layers output_scenario_c TOP
             = [] @ launcher # [dialog]"
    and lo: "layers output_scenario_c OVERLAY = [launcher]"
    and lt: "layers output_scenario_c TOP = [dialog]"
    by (simp_all add: output_scenario_c_def)
  have p: "\<forall>w \<in> set []. keyboard_interactive (current w) \<noteq> EXCLUSIVE"
    by simp
  have e: "keyboard_interactive (current launcher) = EXCLUSIVE"
    and d: "keyboard_interactive (current dialog) = EXCLUSIVE"
    by (simp_all add: launcher_def dialog_def)
  have n: "exclusive_layer core_one_screen = None"
    by (simp add: core_one_screen_def)
  show ?thesis
    using first_exclusive_surface_takes_focus [OF eval_c l p e] eval_c lo lt e d
    by (simp add: n)
qed

text \<open>
  The holder can be stale after a call: a surface of the OVERLAY layer takes exclusive
  focus, then moves to the BOTTOM layer; the next call leaves the holder referring to
  it, although it is no longer in the OVERLAY or TOP layer.
\<close>

theorem stale_holder_counterexample:
  "organise_layers configure_spec core_one_screen output_launcher_overlay =
     Inr (core_launcher_holds, output_launcher_overlay,
          [ReserveSpace (0, 0, 0, 0) screen_b,
           Configure 3 full_1080p full_1080p, Place 3 0 0 600 400,
           FocusWindow 3])
   \<and> output_launcher_bottom =
       output_launcher_overlay\<lparr>layers := (\<lambda>l. [])(BOTTOM := layers output_launcher_overlay OVERLAY)\<rparr>
   \<and> organise_layers configure_spec core_launcher_holds output_launcher_bottom =
       Inr (core_launcher_holds, output_launcher_bottom,
            [ReserveSpace (0, 0, 0, 0) screen_b,
             Configure 3 full_1080p full_1080p, Place 3 0 0 600 400])
   \<and> \<not> holder_invariant core_launcher_holds output_launcher_bottom"
proof -
  have "output_launcher_bottom =
       output_launcher_overlay\<lparr>layers := (\<lambda>l. [])(BOTTOM := layers output_launcher_overlay OVERLAY)\<rparr>"
    by (simp add: output_launcher_bottom_def output_launcher_overlay_def)
  moreover have "\<not> holder_invariant core_launcher_holds output_launcher_bottom"
    by (simp add: holder_invariant_def core_launcher_holds_def scanned_surfaces_def
        output_launcher_bottom_def)
  ultimately show ?thesis
    using eval_launcher_overlay eval_launcher_bottom by simp
qed

text \<open>
  Claim C1, amended. After every call of \<^verbatim>\<open>organise_layers\<close> that returns, the holder
  is \<^verbatim>\<open>None\<close>, or it refers to a surface of the OVERLAY or TOP layer of this output whose
  keyboard interactivity is EXCLUSIVE, or the call has left it unchanged and it refers
  to a surface that is not in the OVERLAY or TOP layer of this output. The first two
  cases are the only ones when, before the call, the holder was \<^verbatim>\<open>None\<close> or referred to a
  surface of these two layers, or when a surface of these two layers is EXCLUSIVE.
\<close>

theorem holder_after_organise_layers:
  assumes "organise_layers cfg core out = Inr (core', out', evs)"
  shows "(holder_invariant core' out'
          \<or> (exclusive_layer core' = exclusive_layer core
              \<and> (\<exists>h. exclusive_layer core = Some h \<and> h \<notin> ident ` set (scanned_surfaces out'))))
       \<and> (exclusive_layer core = None
            \<or> (\<exists>h. exclusive_layer core = Some h \<and> h \<in> ident ` set (scanned_surfaces out))
            \<or> (\<exists>w \<in> set (scanned_surfaces out). is_exclusive w)
          \<longrightarrow> holder_invariant core' out')"
proof (cases "List.find is_exclusive (scanned_surfaces out)")
  case (Some w)
  then have "w \<in> set (scanned_surfaces out)" and "is_exclusive w"
    using find_Some_holds by fastforce+
  moreover have "exclusive_layer core' = Some (ident w)"
    using organise_layers_holder(1) [OF assms] Some by (simp add: scan_holder_cases)
  ultimately have "holder_invariant core' out'"
    unfolding holder_invariant_def organise_layers_holder(2) [OF assms]
    by (auto simp add: is_exclusive_def)
  then show ?thesis by simp
next
  case None
  then have no: "\<forall>w \<in> set (scanned_surfaces out). \<not> is_exclusive w"
    by (simp add: find_None_none)
  have h': "exclusive_layer core' =
      (if \<exists>i. exclusive_layer core = Some i \<and> i \<in> ident ` set (scanned_surfaces out)
       then None else exclusive_layer core)"
    using organise_layers_holder(1) [OF assms] None by (simp add: scan_holder_cases)
  show ?thesis
  proof (cases "exclusive_layer core")
    case None
    then show ?thesis
      using h' by (simp add: holder_invariant_def)
  next
    case (Some h)
    show ?thesis
    proof (cases "h \<in> ident ` set (scanned_surfaces out)")
      case True
      then have "exclusive_layer core' = None"
        using h' Some by simp
      then show ?thesis
        by (simp add: holder_invariant_def)
    next
      case False
      then have "exclusive_layer core' = exclusive_layer core"
        using h' Some by simp
      then show ?thesis
        using False Some no by (simp add: organise_layers_holder(2) [OF assms])
    qed
  qed
qed

theorem holder_after_organise_layers_witness:
  "organise_layers configure_spec core_one_screen output_scenario_c =
     Inr (core_launcher_holds, output_scenario_c,
          [ReserveSpace (0, 0, 0, 0) screen_b,
           Configure 3 full_1080p full_1080p, Place 3 0 0 600 400,
           Configure 4 full_1080p full_1080p, Place 4 0 0 300 200,
           FocusWindow 3])
   \<and> exclusive_layer core_one_screen = None
   \<and> holder_invariant core_launcher_holds output_scenario_c"
proof -
  have n: "exclusive_layer core_one_screen = None"
    by (simp add: core_one_screen_def)
  show ?thesis
    using holder_after_organise_layers [OF eval_c] eval_c n by simp
qed

text \<open>
  Claim C10. The holder of exclusive focus is one field of the core, which all outputs
  share. When \<^verbatim>\<open>organise_layers\<close> runs on one output and then on another, the second
  call starts from the holder that the first call left: it overwrites the holder with
  its own first EXCLUSIVE surface when it has one; otherwise it clears the holder when
  the surface referred to is among its OVERLAY and TOP surfaces, and else leaves the
  holder of the first output in place.
\<close>

theorem exclusive_layer_shared_by_outputs:
  assumes "organise_layers cfg core o1 = Inr (core1, o1', evs1)"
    and "organise_layers cfg core1 o2 = Inr (core2, o2', evs2)"
  shows "(\<forall>w1. List.find is_exclusive (scanned_surfaces o1) = Some w1 \<longrightarrow>
            exclusive_layer core1 = Some (ident w1))
       \<and> (\<forall>w2. List.find is_exclusive (scanned_surfaces o2) = Some w2 \<longrightarrow>
            exclusive_layer core2 = Some (ident w2))
       \<and> (List.find is_exclusive (scanned_surfaces o2) = None
            \<and> (\<exists>h. exclusive_layer core1 = Some h \<and> h \<in> ident ` set (scanned_surfaces o2))
          \<longrightarrow> exclusive_layer core2 = None)
       \<and> (List.find is_exclusive (scanned_surfaces o2) = None
            \<and> (\<forall>h. exclusive_layer core1 = Some h \<longrightarrow> h \<notin> ident ` set (scanned_surfaces o2))
          \<longrightarrow> exclusive_layer core2 = exclusive_layer core1)"
  using organise_layers_holder(1) [OF assms(1)] organise_layers_holder(1) [OF assms(2)]
  by (auto simp add: scan_holder_cases)

theorem exclusive_layer_shared_by_outputs_witness:
  "organise_layers configure_spec core_one_screen output_launcher_overlay =
     Inr (core_launcher_holds, output_launcher_overlay,
          [ReserveSpace (0, 0, 0, 0) screen_b,
           Configure 3 full_1080p full_1080p, Place 3 0 0 600 400,
           FocusWindow 3])
   \<and> exclusive_layer core_launcher_holds = Some (ident launcher)
   \<and> organise_layers configure_spec core_launcher_holds output_right =
       Inr (core_launcher_holds\<lparr>exclusive_layer := Some 4\<rparr>, output_right,
            [ReserveSpace (0, 0, 0, 0) screen_b,
             Configure 4 full_right full_right, Place 4 0 0 300 200,
             FocusWindow 4])
   \<and> exclusive_layer (core_launcher_holds\<lparr>exclusive_layer := Some 4\<rparr>) = Some (ident dialog)
   \<and> organise_layers configure_spec core_launcher_holds output_right_released =
       Inr (core_launcher_holds\<lparr>exclusive_layer := None\<rparr>, output_right_released,
            [ReserveSpace (0, 0, 0, 0) screen_b,
             Configure 3 full_right full_right, Place 3 0 0 600 400])
   \<and> organise_layers configure_spec core_launcher_holds output_right_empty =
       Inr (core_launcher_holds, output_right_empty, [ReserveSpace (0, 0, 0, 0) screen_b])"
proof -
  have f1: "List.find is_exclusive (scanned_surfaces output_launcher_overlay) = Some launcher"
    by (simp add: scanned_surfaces_def output_launcher_overlay_def is_exclusive_def launcher_def)
  have f2: "List.find is_exclusive (scanned_surfaces output_right) = Some dialog"
    by (simp add: scanned_surfaces_def output_right_def is_exclusive_def dialog_def)
  show ?thesis
    using exclusive_layer_shared_by_outputs [OF eval_launcher_overlay eval_right]
      exclusive_layer_shared_by_outputs [OF eval_launcher_overlay eval_right_released]
      exclusive_layer_shared_by_outputs [OF eval_launcher_overlay eval_right_empty]
      eval_launcher_overlay eval_right eval_right_released eval_right_empty f1 f2
    by simp
qed

end
